theory Spec2Isabelle
  imports Main
begin

section \<open>JavaScript values\<close>

text \<open>
  The render entry points take plain JavaScript objects for the data context and for the
  configuration. An object is an association list of own properties; numbers are
  integer valued here.
\<close>

datatype jsval =
    Undefined
  | Null
  | Bool bool
  | Num int
  | Str string
  | Obj "(string \<times> jsval) list"

text \<open>Truthiness, as tested by \<open>if (x)\<close>, \<open>x || y\<close> and \<open>x && y\<close>.\<close>

fun truthy :: "jsval \<Rightarrow> bool" where
  "truthy Undefined = False"
| "truthy Null = False"
| "truthy (Bool b) = b"
| "truthy (Num n) = (n \<noteq> 0)"
| "truthy (Str s) = (s \<noteq> [])"
| "truthy (Obj ps) = True"

text \<open>
  Errors are values. \<open>TypeError\<close> is what the runtime raises for a property read on
  \<open>undefined\<close> or \<open>null\<close>, and \<open>Failure\<close> stands for any other error thrown by a
  collaborator or a template. Each carries its message.

  Modelled from the spec: \<open>EtaErr(message)\<close>, imported from the error module, builds
  the engine's single error kind around the message.
\<close>

datatype error = EtaErr string | TypeError string | Failure string

fun message :: "error \<Rightarrow> string" where
  "message (EtaErr m) = m"
| "message (TypeError m) = m"
| "message (Failure m) = m"

text \<open>Property read \<open>v.k\<close>: fails on \<open>undefined\<close> and \<open>null\<close>, is \<open>undefined\<close> when missing.\<close>

fun getProp :: "jsval \<Rightarrow> string \<Rightarrow> error + jsval" where
  "getProp Undefined k = Inl (TypeError (''Cannot read properties of undefined (reading '' @ k @ '')''))"
| "getProp Null k = Inl (TypeError (''Cannot read properties of null (reading '' @ k @ '')''))"
| "getProp (Obj ps) k = Inr (case map_of ps k of None \<Rightarrow> Undefined | Some v \<Rightarrow> v)"
| "getProp v k = Inr Undefined"

text \<open>Decimal rendering of a number used as a property key.\<close>

fun digitsOf :: "nat \<Rightarrow> string" where
  "digitsOf n =
     (if n < 10 then [char_of (48 + n)]
      else digitsOf (n div 10) @ [char_of (48 + n mod 10)])"

declare digitsOf.simps [simp del]

text \<open>The string a value is coerced to when it is used as a property key.\<close>

fun propertyKey :: "jsval \<Rightarrow> string" where
  "propertyKey (Str s) = s"
| "propertyKey Undefined = ''undefined''"
| "propertyKey Null = ''null''"
| "propertyKey (Bool b) = (if b then ''true'' else ''false'')"
| "propertyKey (Num n) = (if n < 0 then ''-'' @ digitsOf (nat (- n)) else digitsOf (nat n))"
| "propertyKey (Obj ps) = ''[object Object]''"

section \<open>Configuration, template functions, cache\<close>

text \<open>
  A configuration is a mapping from option names to values (\<open>cache\<close>, \<open>async\<close>, \<open>name\<close>,
  \<open>filename\<close>, \<open>views\<close> and every pass-through option). The template cache it refers to
  (\<open>options.templates\<close>) is the one process-wide store, kept in the state below.
\<close>

type_synonym config = "string \<rightharpoonup> jsval"

text \<open>Reading \<open>options.k\<close>.\<close>

definition opt :: "config \<Rightarrow> string \<Rightarrow> jsval" where
  "opt options k = (case options k of None \<Rightarrow> Undefined | Some v \<Rightarrow> v)"

text \<open>The own properties of a value, as copied by a property-by-property copy.\<close>

fun props :: "jsval \<Rightarrow> config" where
  "props (Obj ps) = map_of ps"
| "props v = Map.empty"

text \<open>
  What a call of a template function comes to: it returns its string directly, it throws,
  or (an asynchronous function) it returns a promise, modelled by how the promise
  settles: resolved with the string, or rejected with an error.
\<close>

datatype tresult =
    Returns string
  | Throws error
  | Resolves string
  | Rejects error

text \<open>
  A template function takes the data context and the effective configuration.

  Modelled from the spec: the functions the compiler produces (the compiler module is
  imported, not defined, by the two modules). Handed a completion callback, such a
  function delivers its string by invoking the callback with \<open>(null, str)\<close>, also when
  it goes on to resolve a promise with that string; a failure either is thrown
  synchronously or rejects the promise the function returned, and then the callback is
  not invoked by the function. A template function is a function of its two arguments
  here: the nested renders an include performs are not part of the model.
\<close>

type_synonym TemplateFunction = "jsval \<Rightarrow> config \<Rightarrow> tresult"

text \<open>A completion callback is identified by a label.\<close>

type_synonym CallbackFn = nat

text \<open>
  The state: the template cache, and a trace of the calls made across the file-read
  and compiler boundaries (what a spy on those boundaries records).
\<close>

datatype event = ReadFile string | Compile string

record world =
  templates :: "string \<rightharpoonup> TemplateFunction"
  trace :: "event list"

definition logEvent :: "event \<Rightarrow> world \<Rightarrow> world" where
  "logEvent ev st = st\<lparr>trace := trace st @ [ev]\<rparr>"

text \<open>
  Modelled from the spec: the cache operation \<open>define(key, fn)\<close> of the template cache,
  whose class is not part of the sources at hand. It overwrites unconditionally;
  \<open>get(key)\<close> is the lookup \<open>templates st key\<close>.
\<close>

definition templates_define :: "string \<Rightarrow> TemplateFunction \<Rightarrow> world \<Rightarrow> world" where
  "templates_define key fn st = st\<lparr>templates := (templates st)(key \<mapsto> fn)\<rparr>"

text \<open>
  The collaborators imported by the two modules: the compiler, the file reader, the path
  resolver, and the process-wide base configuration that every effective configuration
  starts from.
\<close>

record env =
  compile :: "string \<Rightarrow> config \<Rightarrow> error + TemplateFunction"
  readFile :: "string \<Rightarrow> error + string"
  getPath :: "string \<Rightarrow> config \<Rightarrow> error + string"
  defaults :: config

text \<open>
  Modelled from the spec: \<open>getConfig(override)\<close>, which is imported from the configuration
  module. The layers are merged key by key, a later layer overwriting an earlier one.
\<close>

definition getConfig :: "env \<Rightarrow> config \<Rightarrow> config" where
  "getConfig env override = defaults env ++ override"

text \<open>
  Modelled from the spec: \<open>copyProps(toObj, fromObj)\<close>, imported from the utilities
  module: every property of \<open>fromObj\<close> is copied onto \<open>toObj\<close>.
\<close>

definition copyProps :: "config \<Rightarrow> jsval \<Rightarrow> config" where
  "copyProps toObj fromObj = toObj ++ props fromObj"

section \<open>File handlers\<close>

text \<open>\<open>loadFile(filePath, options, noCache)\<close>.\<close>

definition loadFile ::
  "env \<Rightarrow> world \<Rightarrow> string \<Rightarrow> config \<Rightarrow> bool \<Rightarrow> (error + TemplateFunction) \<times> world" where
  "loadFile env st filePath options noCache =
     (let config = getConfig env options;
          st1 = logEvent (ReadFile filePath) st
      in case readFile env filePath of
           Inl e \<Rightarrow> (Inl e, st1)
         | Inr template \<Rightarrow>
             (let st2 = logEvent (Compile template) st1
              in case compile env template config of
                   Inl e \<Rightarrow>
                     (Inl (EtaErr (''Loading file: '' @ filePath @ '' failed:''
                                   @ [CHR 0x0A, CHR 0x0A] @ message e)), st2)
                 | Inr compiledTemplate \<Rightarrow>
                     (Inr compiledTemplate,
                      if \<not> noCache
                      then templates_define (propertyKey (opt config ''filename'')) compiledTemplate st2
                      else st2)))"

text \<open>
  \<open>handleCache(options)\<close> of the file handlers. \<open>options.filename\<close> is a string there
  (the callers set it from the path resolver), read here as the key it denotes.
\<close>

definition handleCache_file ::
  "env \<Rightarrow> world \<Rightarrow> config \<Rightarrow> (error + TemplateFunction) \<times> world" where
  "handleCache_file env st options =
     (let filename = propertyKey (opt options ''filename'')
      in if truthy (opt options ''cache'')
         then (case templates st filename of
                 Some func \<Rightarrow> (Inr func, st)
               | None \<Rightarrow> loadFile env st filename options False)
         else loadFile env st filename options True)"


text \<open>
  What the caller of a render entry point observes: a string returned or an error thrown
  synchronously, the completion callback invoked with \<open>(err, str)\<close>, or a promise handed
  back that is resolved or rejected. The last case is the call that returns nothing and
  never invokes the callback, while the promise the template function returned, which
  nobody holds, is rejected.
\<close>

datatype outcome =
    Returned string
  | Thrown error
  | CallbackCalled CallbackFn "error option" "string option"
  | PromiseResolved string
  | PromiseRejected error
  | UnhandledRejection error

text \<open>
  \<open>tryHandleCache(data, options, cb)\<close>. With a callback, the template function is handed the
  callback; what is thrown inside the \<open>try\<close> goes to \<open>cb(err)\<close>, and the value the
  function returns is dropped, a rejected promise included. Without a callback, the
  promise executor runs the same two steps and resolves with what the function returns
  (a promise resolved with a promise takes on its fate) or rejects with what is thrown.
\<close>

definition tryHandleCache ::
  "env \<Rightarrow> world \<Rightarrow> jsval \<Rightarrow> config \<Rightarrow> CallbackFn option \<Rightarrow> outcome \<times> world" where
  "tryHandleCache env st data options cb =
     (case cb of
        Some c \<Rightarrow>
          (case handleCache_file env st options of
             (Inl err, st') \<Rightarrow> (CallbackCalled c (Some err) None, st')
           | (Inr templateFn, st') \<Rightarrow>
               (case templateFn data options of
                  Throws err \<Rightarrow> (CallbackCalled c (Some err) None, st')
                | Returns str \<Rightarrow> (CallbackCalled c None (Some str), st')
                | Resolves str \<Rightarrow> (CallbackCalled c None (Some str), st')
                | Rejects err \<Rightarrow> (UnhandledRejection err, st')))
      | None \<Rightarrow>
          (case handleCache_file env st options of
             (Inl err, st') \<Rightarrow> (PromiseRejected err, st')
           | (Inr templateFn, st') \<Rightarrow>
               (case templateFn data options of
                  Throws err \<Rightarrow> (PromiseRejected err, st')
                | Returns result \<Rightarrow> (PromiseResolved result, st')
                | Resolves result \<Rightarrow> (PromiseResolved result, st')
                | Rejects err \<Rightarrow> (PromiseRejected err, st'))))"

text \<open>
  The third positional argument of the entry points holds a value (a configuration
  object, \<open>undefined\<close>, \<open>null\<close>) or a function (the callback).
\<close>

datatype arg = Val jsval | Fn CallbackFn

fun typeof :: "arg \<Rightarrow> string" where
  "typeof (Fn c) = ''function''"
| "typeof (Val Undefined) = ''undefined''"
| "typeof (Val Null) = ''object''"
| "typeof (Val (Bool b)) = ''boolean''"
| "typeof (Val (Num n)) = ''number''"
| "typeof (Val (Str s)) = ''string''"
| "typeof (Val (Obj ps)) = ''object''"

fun argTruthy :: "arg \<Rightarrow> bool" where
  "argTruthy (Fn c) = True"
| "argTruthy (Val v) = truthy v"

text \<open>The enumerable own properties of an argument; a function has none.\<close>

fun argProps :: "arg \<Rightarrow> config" where
  "argProps (Fn c) = Map.empty"
| "argProps (Val v) = props v"

text \<open>
  The configuration that \<open>renderFile\<close> builds from its arguments, before the filename is
  set: from the explicit configuration object when the third argument is an object
  (\<open>null\<close> included, which \<open>|| {}\<close> replaces), otherwise from the data object and its
  \<open>settings\<close>.
\<close>

definition renderFile_config :: "env \<Rightarrow> jsval \<Rightarrow> arg \<Rightarrow> error + config" where
  "renderFile_config env data config =
     (if typeof config = ''object''
      then Inr (getConfig env (argProps (if argTruthy config then config else Val (Obj []))))
      else
        (let renderConfig = getConfig env (props data)
         in case getProp data ''settings'' of
              Inl e \<Rightarrow> Inl e
            | Inr settings \<Rightarrow>
                if truthy settings
                then
                  (case getProp settings ''views'' of
                     Inl e \<Rightarrow> Inl e
                   | Inr views \<Rightarrow>
                       (let rc1 = (if truthy views then renderConfig(''views'' \<mapsto> views)
                                   else renderConfig)
                        in case getProp settings ''view cache'' of
                             Inl e \<Rightarrow> Inl e
                           | Inr viewCache \<Rightarrow>
                               (let rc2 = (if truthy viewCache then rc1(''cache'' \<mapsto> Bool True)
                                           else rc1)
                                in case getProp settings ''view options'' of
                                     Inl e \<Rightarrow> Inl e
                                   | Inr viewOpts \<Rightarrow>
                                       Inr (if truthy viewOpts then copyProps rc2 viewOpts
                                            else rc2))))
                else Inr renderConfig))"

text \<open>\<open>data || {}\<close>.\<close>

definition dataOrEmpty :: "jsval \<Rightarrow> jsval" where
  "dataOrEmpty data = (if truthy data then data else Obj [])"

text \<open>The callback: the fourth argument if it is a function, else the third if it is one.\<close>

definition callbackOf :: "arg \<Rightarrow> CallbackFn option \<Rightarrow> CallbackFn option" where
  "callbackOf config cb =
     (case cb of
        Some c \<Rightarrow> Some c
      | None \<Rightarrow> (case config of Fn c \<Rightarrow> Some c | Val v \<Rightarrow> None))"

text \<open>
  The configuration \<open>renderFile\<close> hands on: the configuration built from the arguments,
  with \<open>filename\<close> set to the path the resolver returns for it.
\<close>

definition renderFile_options :: "env \<Rightarrow> string \<Rightarrow> jsval \<Rightarrow> arg \<Rightarrow> error + config" where
  "renderFile_options env filename data config =
     (case renderFile_config env data config of
        Inl e \<Rightarrow> Inl e
      | Inr renderConfig \<Rightarrow>
          (case getPath env filename renderConfig of
             Inl e \<Rightarrow> Inl e
           | Inr path \<Rightarrow> Inr (renderConfig(''filename'' \<mapsto> Str path))))"

text \<open>
  \<open>renderFile(filename, data, config, cb)\<close>. The configuration is built, and the path
  resolved, outside \<open>tryHandleCache\<close>: an error there leaves \<open>renderFile\<close> as a thrown error.
\<close>

definition renderFile ::
  "env \<Rightarrow> world \<Rightarrow> string \<Rightarrow> jsval \<Rightarrow> arg \<Rightarrow> CallbackFn option \<Rightarrow> outcome \<times> world" where
  "renderFile env st filename data0 config cb =
     (let data = dataOrEmpty data0;
          callback = callbackOf config cb
      in case renderFile_options env filename data config of
           Inl e \<Rightarrow> (Thrown e, st)
         | Inr renderConfig \<Rightarrow> tryHandleCache env st data renderConfig callback)"

text \<open>
  Object spread with one more property, \<open>{...v, k: x}\<close> (and \<open>Object.assign({}, v, {k: x})\<close>):
  the own properties of \<open>v\<close>, none for \<open>undefined\<close> and \<open>null\<close>, with \<open>k\<close> set to \<open>x\<close>.
\<close>

fun ownProps :: "jsval \<Rightarrow> (string \<times> jsval) list" where
  "ownProps (Obj ps) = ps"
| "ownProps v = []"

definition spreadWith :: "jsval \<Rightarrow> string \<Rightarrow> jsval \<Rightarrow> jsval" where
  "spreadWith v k x = Obj (filter (\<lambda>p. fst p \<noteq> k) (ownProps v) @ [(k, x)])"

text \<open>\<open>renderFileAsync(filename, data, config, cb)\<close>.\<close>

definition renderFileAsync ::
  "env \<Rightarrow> world \<Rightarrow> string \<Rightarrow> jsval \<Rightarrow> arg \<Rightarrow> CallbackFn option \<Rightarrow> outcome \<times> world" where
  "renderFileAsync env st filename data config cb =
     renderFile env st filename
       (if typeof config = ''function'' then spreadWith data ''async'' (Bool True) else data)
       (if typeof config = ''object''
        then (case config of
                Val v \<Rightarrow> Val (spreadWith v ''async'' (Bool True))
              | Fn c \<Rightarrow> config)
        else config)
       cb"

section \<open>Rendering a template string\<close>

text \<open>The template argument of \<open>render\<close>: a template string or a template function.\<close>

datatype template = Source string | Compiled TemplateFunction

text \<open>\<open>handleCache(template, options)\<close> of the render module.\<close>

definition handleCache ::
  "env \<Rightarrow> world \<Rightarrow> template \<Rightarrow> config \<Rightarrow> (error + TemplateFunction) \<times> world" where
  "handleCache env st template options =
     (let name = propertyKey (opt options ''name'');
          keyed = (truthy (opt options ''cache'') \<and> truthy (opt options ''name''))
      in case (if keyed then templates st name else None) of
           Some func \<Rightarrow> (Inr func, st)
         | None \<Rightarrow>
             (case (case template of
                      Compiled f \<Rightarrow> (Inr f, st)
                    | Source str \<Rightarrow> (compile env str options, logEvent (Compile str) st)) of
                (Inl e, st1) \<Rightarrow> (Inl e, st1)
              | (Inr templateFunc, st1) \<Rightarrow>
                  (Inr templateFunc,
                   if keyed then templates_define name templateFunc st1 else st1)))"

text \<open>\<open>getConfig(config || {})\<close>, the options of one \<open>render\<close> call.\<close>

definition render_options :: "env \<Rightarrow> arg \<Rightarrow> config" where
  "render_options env config =
     getConfig env (argProps (if argTruthy config then config else Val (Obj [])))"

text \<open>
  \<open>render(template, data, config, cb)\<close>. In asynchronous mode the two branches are those of
  \<open>tryHandleCache\<close>. In synchronous mode the caller gets what the template function
  returns, or the error thrown.
\<close>

definition render ::
  "env \<Rightarrow> world \<Rightarrow> template \<Rightarrow> jsval \<Rightarrow> arg \<Rightarrow> CallbackFn option \<Rightarrow> outcome \<times> world" where
  "render env st template data config cb =
     (let options = render_options env config
      in if truthy (opt options ''async'')
         then
           (case cb of
              Some c \<Rightarrow>
                (case handleCache env st template options of
                   (Inl err, st') \<Rightarrow> (CallbackCalled c (Some err) None, st')
                 | (Inr templateFn, st') \<Rightarrow>
                     (case templateFn data options of
                        Throws err \<Rightarrow> (CallbackCalled c (Some err) None, st')
                      | Returns str \<Rightarrow> (CallbackCalled c None (Some str), st')
                      | Resolves str \<Rightarrow> (CallbackCalled c None (Some str), st')
                      | Rejects err \<Rightarrow> (UnhandledRejection err, st')))
            | None \<Rightarrow>
                (case handleCache env st template options of
                   (Inl err, st') \<Rightarrow> (PromiseRejected err, st')
                 | (Inr templateFn, st') \<Rightarrow>
                     (case templateFn data options of
                        Throws err \<Rightarrow> (PromiseRejected err, st')
                      | Returns str \<Rightarrow> (PromiseResolved str, st')
                      | Resolves str \<Rightarrow> (PromiseResolved str, st')
                      | Rejects err \<Rightarrow> (PromiseRejected err, st'))))
         else
           (case handleCache env st template options of
              (Inl err, st') \<Rightarrow> (Thrown err, st')
            | (Inr templateFn, st') \<Rightarrow>
                (case templateFn data options of
                   Throws err \<Rightarrow> (Thrown err, st')
                 | Returns str \<Rightarrow> (Returned str, st')
                 | Resolves str \<Rightarrow> (PromiseResolved str, st')
                 | Rejects err \<Rightarrow> (PromiseRejected err, st'))))"

text \<open>\<open>renderAsync(template, data, config, cb)\<close>.\<close>

definition renderAsync ::
  "env \<Rightarrow> world \<Rightarrow> template \<Rightarrow> jsval \<Rightarrow> arg \<Rightarrow> CallbackFn option \<Rightarrow> outcome \<times> world" where
  "renderAsync env st template data config cb =
     render env st template data
       (Val (spreadWith (case config of Val v \<Rightarrow> v | Fn c \<Rightarrow> Obj []) ''async'' (Bool True)))
       cb"

section \<open>A concrete environment\<close>

text \<open>
  A small environment on which the theorems below are instantiated. The compiler rejects
  one malformed source and accepts \<open>await\<close> only in asynchronous mode; what it yields
  renders the source text itself, as a direct return in synchronous mode and through a
  promise in asynchronous mode, where one template fails while it runs. There are four
  template files. The path resolver takes an absolute path as it is and looks a relative
  one up among the files of the views directory. The defaults have caching and
  asynchronous mode off.
\<close>

definition demoCompile :: "string \<Rightarrow> config \<Rightarrow> error + TemplateFunction" where
  "demoCompile src cfg =
     (if src = ''<% bad''
      then Inl (Failure ''Bad template syntax'')
      else if truthy (opt cfg ''async'')
      then (if src = ''<%= await it.missing() %>''
            then Inr (\<lambda>data options. Rejects (Failure ''it.missing is not a function''))
            else Inr (\<lambda>data options. Resolves src))
      else if src = ''<%= await 1 %>'' \<or> src = ''<%= await it.missing() %>''
      then Inl (Failure ''await is only valid in async functions'')
      else Inr (\<lambda>data options. Returns src))"

definition demoReadFile :: "string \<Rightarrow> error + string" where
  "demoReadFile path =
     (if path = ''/views/a.eta'' then Inr ''Hi''
      else if path = ''/views/bad.eta'' then Inr ''<% bad''
      else if path = ''/views/async.eta'' then Inr ''<%= await 1 %>''
      else if path = ''/views/reject.eta'' then Inr ''<%= await it.missing() %>''
      else Inl (Failure ''ENOENT''))"

definition demoGetPath :: "string \<Rightarrow> config \<Rightarrow> error + string" where
  "demoGetPath path cfg =
     (case path of
        [] \<Rightarrow> Inl (EtaErr ''Could not find the template'')
      | c # rest \<Rightarrow>
          if c = CHR ''/'' then Inr path
          else if path = ''a.eta'' \<or> path = ''bad.eta'' \<or> path = ''async.eta''
                  \<or> path = ''reject.eta''
          then Inr (''/views/'' @ path)
          else Inl (EtaErr ''Could not find the template''))"

definition demoEnv :: env where
  "demoEnv = \<lparr>compile = demoCompile, readFile = demoReadFile, getPath = demoGetPath,
              defaults = [''cache'' \<mapsto> Bool False, ''async'' \<mapsto> Bool False]\<rparr>"

definition emptyWorld :: world where
  "emptyWorld = \<lparr>templates = Map.empty, trace = []\<rparr>"

text \<open>A state in which two keys are already registered, and two configurations.\<close>

definition demoCached :: TemplateFunction where
  "demoCached = (\<lambda>data options. Returns ''cached'')"

definition demoNamed :: arg where
  "demoNamed = Val (Obj [(''cache'', Bool True), (''name'', Str ''greet'')])"

definition demoCaching :: arg where
  "demoCaching = Val (Obj [(''cache'', Bool True)])"

definition hitWorld :: world where
  "hitWorld = \<lparr>templates = [''greet'' \<mapsto> demoCached, ''/views/a.eta'' \<mapsto> demoCached], trace = []\<rparr>"

definition demoNamedNoCache :: arg where
  "demoNamedNoCache = Val (Obj [(''cache'', Bool False), (''name'', Str ''greet'')])"

definition demoPassed :: TemplateFunction where
  "demoPassed = (\<lambda>data options. Returns ''passed'')"

text \<open>
  A configuration with asynchronous mode on, a template function that resolves a promise,
  and two render calls made with caching off: of a template function, and of a file that
  resolves but cannot be read.
\<close>

definition demoAsync :: arg where
  "demoAsync = Val (Obj [(''async'', Bool True)])"

definition demoLater :: TemplateFunction where
  "demoLater = (\<lambda>data options. Resolves ''later'')"

definition demoRenderPassed :: "world \<Rightarrow> outcome \<times> world" where
  "demoRenderPassed w = render demoEnv w (Compiled demoPassed) (Obj []) demoNamedNoCache None"

definition demoRenderGone :: "world \<Rightarrow> outcome \<times> world" where
  "demoRenderGone w = renderFile demoEnv w ''/views/gone.eta'' (Obj []) (Val Undefined) None"

section \<open>Observations\<close>

text \<open>
  The result of the two steps every branch of the entry points runs: the cache lookup,
  then the call of the template function it produced. An error of the lookup is a throw.
\<close>

definition invoke :: "error + TemplateFunction \<Rightarrow> jsval \<Rightarrow> config \<Rightarrow> tresult" where
  "invoke r data options =
     (case r of Inl e \<Rightarrow> Throws e | Inr templateFn \<Rightarrow> templateFn data options)"

text \<open>
  How that result reaches the caller. In synchronous mode it is handed over as it is. In
  asynchronous mode with a callback, the callback receives \<open>(null, str)\<close> or, for a throw,
  \<open>(err, undefined)\<close>, and a rejection is left unhandled. In asynchronous mode without a
  callback, a promise is resolved or rejected.
\<close>

definition deliver :: "bool \<Rightarrow> CallbackFn option \<Rightarrow> tresult \<Rightarrow> outcome" where
  "deliver async cb r =
     (if async
      then (case cb of
              Some c \<Rightarrow>
                (case r of
                   Throws e \<Rightarrow> CallbackCalled c (Some e) None
                 | Returns s \<Rightarrow> CallbackCalled c None (Some s)
                 | Resolves s \<Rightarrow> CallbackCalled c None (Some s)
                 | Rejects e \<Rightarrow> UnhandledRejection e)
            | None \<Rightarrow>
                (case r of
                   Throws e \<Rightarrow> PromiseRejected e
                 | Returns s \<Rightarrow> PromiseResolved s
                 | Resolves s \<Rightarrow> PromiseResolved s
                 | Rejects e \<Rightarrow> PromiseRejected e))
      else (case r of
              Throws e \<Rightarrow> Thrown e
            | Returns s \<Rightarrow> Returned s
            | Resolves s \<Rightarrow> PromiseResolved s
            | Rejects e \<Rightarrow> PromiseRejected e))"

text \<open>The number of compiler invocations recorded in the trace.\<close>

fun isCompile :: "event \<Rightarrow> bool" where
  "isCompile (Compile src) = True"
| "isCompile (ReadFile path) = False"

definition compileCount :: "world \<Rightarrow> nat" where
  "compileCount st = length (filter isCompile (trace st))"

text \<open>The state after \<open>n\<close> successive calls of one and the same render call.\<close>

fun renders :: "nat \<Rightarrow> (world \<Rightarrow> outcome \<times> world) \<Rightarrow> world \<Rightarrow> world" where
  "renders 0 call st = st"
| "renders (Suc n) call st = renders n call (snd (call st))"

section \<open>Basic facts\<close>

lemmas demo_defs = demoEnv_def demoCompile_def demoReadFile_def demoGetPath_def emptyWorld_def
  demoCached_def demoNamed_def demoCaching_def hitWorld_def

lemmas model_defs = render_options_def renderFile_options_def renderFile_config_def getConfig_def
  opt_def dataOrEmpty_def callbackOf_def map_add_def copyProps_def

lemma renderFile_options_filename:
  assumes "renderFile_options env filename data config = Inr options"
  shows "\<exists>p. options ''filename'' = Some (Str p)"
  using assms by (auto simp: renderFile_options_def split: sum.splits)

lemma tryHandleCache_deliver:
  "tryHandleCache env st data options cb =
     (deliver True cb (invoke (fst (handleCache_file env st options)) data options),
      snd (handleCache_file env st options))"
  by (simp add: tryHandleCache_def deliver_def invoke_def
      split: option.splits prod.splits sum.splits tresult.splits)

lemma render_deliver:
  "render env st template data config cb =
     (deliver (truthy (opt (render_options env config) ''async'')) cb
        (invoke (fst (handleCache env st template (render_options env config))) data
           (render_options env config)),
      snd (handleCache env st template (render_options env config)))"
  by (simp add: render_def deliver_def invoke_def Let_def
      split: option.splits prod.splits sum.splits tresult.splits)

lemma renderFile_deliver:
  assumes "renderFile_options env filename (dataOrEmpty data) config = Inr options"
  shows "renderFile env st filename data config cb =
     (deliver True (callbackOf config cb)
        (invoke (fst (handleCache_file env st options)) (dataOrEmpty data) options),
      snd (handleCache_file env st options))"
  using assms by (simp add: renderFile_def Let_def tryHandleCache_deliver)

lemma handleCache_hit:
  assumes "truthy (opt options ''cache'')" and "truthy (opt options ''name'')"
    and "templates st (propertyKey (opt options ''name'')) = Some f"
  shows "handleCache env st template options = (Inr f, st)"
  using assms by (simp add: handleCache_def Let_def)

lemma handleCache_file_hit:
  assumes "truthy (opt options ''cache'')"
    and "templates st (propertyKey (opt options ''filename'')) = Some f"
  shows "handleCache_file env st options = (Inr f, st)"
  using assms by (simp add: handleCache_file_def Let_def)

lemma handleCache_miss_source:
  assumes "truthy (opt options ''cache'')" and "truthy (opt options ''name'')"
    and "templates st (propertyKey (opt options ''name'')) = None"
    and "compile env src options = Inr f"
  shows "handleCache env st (Source src) options =
           (Inr f, templates_define (propertyKey (opt options ''name'')) f (logEvent (Compile src) st))"
  using assms by (simp add: handleCache_def Let_def)

lemma templates_define_lookup [simp]: "templates (templates_define key f st) key = Some f"
  by (simp add: templates_define_def)

lemma loadFile_success:
  assumes "readFile env filePath = Inr src" and "compile env src (getConfig env options) = Inr f"
  shows "loadFile env st filePath options noCache =
           (Inr f, if noCache then logEvent (Compile src) (logEvent (ReadFile filePath) st)
                   else templates_define (propertyKey (opt (getConfig env options) ''filename'')) f
                          (logEvent (Compile src) (logEvent (ReadFile filePath) st)))"
  using assms by (simp add: loadFile_def Let_def)

lemma compileCount_logEvent [simp]:
  "compileCount (logEvent ev st) = (if isCompile ev then Suc (compileCount st) else compileCount st)"
  by (simp add: compileCount_def logEvent_def)

lemma compileCount_templates_define [simp]:
  "compileCount (templates_define key f st) = compileCount st"
  by (simp add: compileCount_def templates_define_def)

lemma templates_logEvent [simp]: "templates (logEvent ev st) = templates st"
  by (simp add: logEvent_def)

lemma trace_templates_define [simp]: "trace (templates_define key f st) = trace st"
  by (simp add: templates_define_def)

lemma handleCache_nocache_templates:
  assumes "\<not> truthy (opt options ''cache'')"
  shows "templates (snd (handleCache env st template options)) = templates st"
  using assms by (simp add: handleCache_def Let_def split: template.splits sum.splits)

lemma handleCache_nocache_compiles:
  assumes "\<not> truthy (opt options ''cache'')"
  shows "compileCount (snd (handleCache env st (Source src) options)) = Suc (compileCount st)"
  using assms by (simp add: handleCache_def Let_def split: sum.splits)

lemma handleCache_file_nocache_templates:
  assumes "\<not> truthy (opt options ''cache'')"
  shows "templates (snd (handleCache_file env st options)) = templates st"
  using assms by (simp add: handleCache_file_def loadFile_def Let_def split: sum.splits)

lemma handleCache_file_nocache_compiles:
  assumes "\<not> truthy (opt options ''cache'')"
    and "readFile env (propertyKey (opt options ''filename'')) = Inr src"
  shows "compileCount (snd (handleCache_file env st options)) = Suc (compileCount st)"
  using assms by (simp add: handleCache_file_def loadFile_def Let_def split: sum.splits)

lemma render_nocache_step:
  assumes "\<not> truthy (opt (render_options env config) ''cache'')"
  shows "templates (snd (render env st template data config cb)) = templates st"
    and "compileCount (snd (render env st (Source src) data config cb)) = Suc (compileCount st)"
  by (simp_all add: render_deliver handleCache_nocache_templates [OF assms]
      handleCache_nocache_compiles [OF assms])

lemma renderFile_nocache_step:
  assumes o: "renderFile_options env filename (dataOrEmpty data) config = Inr options"
    and c: "\<not> truthy (opt options ''cache'')"
  shows "templates (snd (renderFile env st filename data config cb)) = templates st"
    and "readFile env (propertyKey (opt options ''filename'')) = Inr src \<Longrightarrow>
         compileCount (snd (renderFile env st filename data config cb)) = Suc (compileCount st)"
  by (simp_all add: renderFile_deliver [OF o] handleCache_file_nocache_templates [OF c]
      handleCache_file_nocache_compiles [OF c])

lemma renders_templates:
  assumes "\<And>w. templates (snd (call w)) = templates w"
  shows "templates (renders n call st) = templates st"
  using assms by (induction n arbitrary: st) simp_all

lemma renders_compileCount:
  assumes "\<And>w. compileCount (snd (call w)) = Suc (compileCount w)"
  shows "compileCount (renders n call st) = compileCount st + n"
  using assms by (induction n arbitrary: st) simp_all

lemma renders_compileCount_same:
  assumes "\<And>w. compileCount (snd (call w)) = compileCount w"
  shows "compileCount (renders n call st) = compileCount st"
  using assms by (induction n arbitrary: st) simp_all

lemma render_compiled_step:
  "compileCount (snd (render env w (Compiled f) data config cb)) = compileCount w"
  by (auto simp: render_deliver handleCache_def Let_def split: option.splits)

lemma renderFile_unreadable_step:
  assumes o: "renderFile_options env filename (dataOrEmpty data) config = Inr options"
    and c: "\<not> truthy (opt options ''cache'')"
    and r: "readFile env (propertyKey (opt options ''filename'')) = Inl e"
  shows "compileCount (snd (renderFile env w filename data config cb)) = compileCount w"
  using c r by (simp add: renderFile_deliver [OF o] handleCache_file_def loadFile_def Let_def)

lemmas run_defs = renderFile_def tryHandleCache_def handleCache_file_def loadFile_def Let_def
  render_def handleCache_def templates_define_def logEvent_def

lemma render_source_nocache:
  assumes "\<not> truthy (opt (render_options env config) ''cache'')"
  shows "render env w (Source src) data config cb =
           (deliver (truthy (opt (render_options env config) ''async'')) cb
              (invoke (compile env src (render_options env config)) data
                 (render_options env config)),
            logEvent (Compile src) w)"
  using assms
  by (simp add: render_deliver handleCache_def Let_def invoke_def split: sum.splits)

lemma renderFile_read_nocache:
  assumes o: "renderFile_options env filename (dataOrEmpty data) config = Inr options"
    and c: "\<not> truthy (opt options ''cache'')"
    and r: "readFile env (propertyKey (opt options ''filename'')) = Inr src"
  shows "renderFile env w filename data config cb =
           (deliver True (callbackOf config cb)
              (invoke
                 (case compile env src (getConfig env options) of
                    Inl e \<Rightarrow>
                      Inl (EtaErr (''Loading file: '' @ propertyKey (opt options ''filename'')
                                   @ '' failed:'' @ [CHR 0x0A, CHR 0x0A] @ message e))
                  | Inr compiledTemplate \<Rightarrow> Inr compiledTemplate)
                 (dataOrEmpty data) options),
            logEvent (Compile src) (logEvent (ReadFile (propertyKey (opt options ''filename''))) w))"
  using c r
  by (simp add: renderFile_deliver [OF o] handleCache_file_def loadFile_def Let_def invoke_def
      split: sum.splits)

section \<open>Properties\<close>

text \<open>
  C1: on a cache hit the cached template function is returned unchanged, whatever the
  template source and the rest of the configuration are: for the string handler when
  caching is on, the name is non-empty and registered; for the file handler when caching
  is on and the filename is registered. In particular, of two successive renders under
  one key, the first of which compiles and registers, the second produces its output
  from the function compiled by the first, whatever template, file content or
  compiler the second call comes with, and leaves the state as it was.
\<close>

theorem cache_hit_returns_cached_function:
  "(truthy (opt options ''cache'') \<and> truthy (opt options ''name'')
      \<and> templates st (propertyKey (opt options ''name'')) = Some f
    \<longrightarrow> handleCache env st template options = (Inr f, st))
   \<and> (truthy (opt foptions ''cache'')
      \<and> templates st (propertyKey (opt foptions ''filename'')) = Some f
    \<longrightarrow> handleCache_file env st foptions = (Inr f, st))
   \<and> (render_options env1 config1 = options1 \<and> render_options env2 config2 = options2
      \<and> truthy (opt options1 ''cache'') \<and> truthy (opt options1 ''name'')
      \<and> truthy (opt options2 ''cache'') \<and> opt options2 ''name'' = opt options1 ''name''
      \<and> templates st (propertyKey (opt options1 ''name'')) = None
      \<and> compile env1 src1 options1 = Inr f1
      \<and> st1 = snd (render env1 st (Source src1) data1 config1 cb1)
    \<longrightarrow> fst (render env1 st (Source src1) data1 config1 cb1)
          = deliver (truthy (opt options1 ''async'')) cb1 (f1 data1 options1)
        \<and> render env2 st1 template2 data2 config2 cb2
          = (deliver (truthy (opt options2 ''async'')) cb2 (f1 data2 options2), st1))
   \<and> (renderFile_options env1 filename1 (dataOrEmpty fdata1) fconfig1 = Inr foptions1
      \<and> renderFile_options env2 filename2 (dataOrEmpty fdata2) fconfig2 = Inr foptions2
      \<and> truthy (opt foptions1 ''cache'') \<and> truthy (opt foptions2 ''cache'')
      \<and> opt foptions2 ''filename'' = opt foptions1 ''filename''
      \<and> templates st (propertyKey (opt foptions1 ''filename'')) = None
      \<and> readFile env1 (propertyKey (opt foptions1 ''filename'')) = Inr fsrc1
      \<and> compile env1 fsrc1 (getConfig env1 foptions1) = Inr f1
      \<and> fst1 = snd (renderFile env1 st filename1 fdata1 fconfig1 cb1)
    \<longrightarrow> fst (renderFile env1 st filename1 fdata1 fconfig1 cb1)
          = deliver True (callbackOf fconfig1 cb1) (f1 (dataOrEmpty fdata1) foptions1)
        \<and> renderFile env2 fst1 filename2 fdata2 fconfig2 cb2
          = (deliver True (callbackOf fconfig2 cb2) (f1 (dataOrEmpty fdata2) foptions2), fst1))"
proof (intro conjI impI)
  assume "truthy (opt options ''cache'') \<and> truthy (opt options ''name'')
      \<and> templates st (propertyKey (opt options ''name'')) = Some f"
  then show "handleCache env st template options = (Inr f, st)"
    by (simp add: handleCache_hit)
next
  assume "truthy (opt foptions ''cache'')
      \<and> templates st (propertyKey (opt foptions ''filename'')) = Some f"
  then show "handleCache_file env st foptions = (Inr f, st)"
    by (simp add: handleCache_file_hit)
next
  assume h: "render_options env1 config1 = options1 \<and> render_options env2 config2 = options2
      \<and> truthy (opt options1 ''cache'') \<and> truthy (opt options1 ''name'')
      \<and> truthy (opt options2 ''cache'') \<and> opt options2 ''name'' = opt options1 ''name''
      \<and> templates st (propertyKey (opt options1 ''name'')) = None
      \<and> compile env1 src1 options1 = Inr f1
      \<and> st1 = snd (render env1 st (Source src1) data1 config1 cb1)"
  let ?key = "propertyKey (opt options1 ''name'')"
  from h have o1: "render_options env1 config1 = options1"
    and o2: "render_options env2 config2 = options2"
    and c1: "truthy (opt options1 ''cache'')" and n1: "truthy (opt options1 ''name'')"
    and c2: "truthy (opt options2 ''cache'')" and n2: "opt options2 ''name'' = opt options1 ''name''"
    and fresh: "templates st ?key = None" and comp: "compile env1 src1 options1 = Inr f1"
    and s1: "st1 = snd (render env1 st (Source src1) data1 config1 cb1)"
    by simp_all
  have miss: "handleCache env1 st (Source src1) options1 =
      (Inr f1, templates_define ?key f1 (logEvent (Compile src1) st))"
    using c1 n1 fresh comp by (rule handleCache_miss_source)
  have st1: "st1 = templates_define ?key f1 (logEvent (Compile src1) st)"
    unfolding s1 render_deliver o1 miss by simp
  show "fst (render env1 st (Source src1) data1 config1 cb1)
          = deliver (truthy (opt options1 ''async'')) cb1 (f1 data1 options1)"
    unfolding render_deliver o1 miss by (simp add: invoke_def)
  have "handleCache env2 st1 template2 options2 = (Inr f1, st1)"
    using c2 n1 n2 st1 by (intro handleCache_hit) simp_all
  then show "render env2 st1 template2 data2 config2 cb2
          = (deliver (truthy (opt options2 ''async'')) cb2 (f1 data2 options2), st1)"
    unfolding render_deliver o2 by (simp add: invoke_def)
next
  assume h: "renderFile_options env1 filename1 (dataOrEmpty fdata1) fconfig1 = Inr foptions1
      \<and> renderFile_options env2 filename2 (dataOrEmpty fdata2) fconfig2 = Inr foptions2
      \<and> truthy (opt foptions1 ''cache'') \<and> truthy (opt foptions2 ''cache'')
      \<and> opt foptions2 ''filename'' = opt foptions1 ''filename''
      \<and> templates st (propertyKey (opt foptions1 ''filename'')) = None
      \<and> readFile env1 (propertyKey (opt foptions1 ''filename'')) = Inr fsrc1
      \<and> compile env1 fsrc1 (getConfig env1 foptions1) = Inr f1
      \<and> fst1 = snd (renderFile env1 st filename1 fdata1 fconfig1 cb1)"
  let ?key = "propertyKey (opt foptions1 ''filename'')"
  let ?st' = "templates_define ?key f1 (logEvent (Compile fsrc1) (logEvent (ReadFile ?key) st))"
  from h have o1: "renderFile_options env1 filename1 (dataOrEmpty fdata1) fconfig1 = Inr foptions1"
    and o2: "renderFile_options env2 filename2 (dataOrEmpty fdata2) fconfig2 = Inr foptions2"
    and c1: "truthy (opt foptions1 ''cache'')" and c2: "truthy (opt foptions2 ''cache'')"
    and n2: "opt foptions2 ''filename'' = opt foptions1 ''filename''"
    and fresh: "templates st ?key = None"
    and rd: "readFile env1 ?key = Inr fsrc1"
    and comp: "compile env1 fsrc1 (getConfig env1 foptions1) = Inr f1"
    and s1: "fst1 = snd (renderFile env1 st filename1 fdata1 fconfig1 cb1)"
    by simp_all
  from o1 obtain p where p: "foptions1 ''filename'' = Some (Str p)"
    using renderFile_options_filename by blast
  then have key: "opt (getConfig env1 foptions1) ''filename'' = opt foptions1 ''filename''"
    by (simp add: opt_def getConfig_def)
  have "loadFile env1 st ?key foptions1 False = (Inr f1, ?st')"
    using rd comp by (simp add: loadFile_success key)
  then have miss: "handleCache_file env1 st foptions1 = (Inr f1, ?st')"
    using c1 fresh by (simp add: handleCache_file_def Let_def)
  have st1: "fst1 = ?st'"
    unfolding s1 renderFile_deliver [OF o1] miss by simp
  show "fst (renderFile env1 st filename1 fdata1 fconfig1 cb1)
          = deliver True (callbackOf fconfig1 cb1) (f1 (dataOrEmpty fdata1) foptions1)"
    unfolding renderFile_deliver [OF o1] miss by (simp add: invoke_def)
  have "handleCache_file env2 fst1 foptions2 = (Inr f1, fst1)"
    using c2 n2 st1 by (intro handleCache_file_hit) simp_all
  then show "renderFile env2 fst1 filename2 fdata2 fconfig2 cb2
          = (deliver True (callbackOf fconfig2 cb2) (f1 (dataOrEmpty fdata2) foptions2), fst1)"
    unfolding renderFile_deliver [OF o2] by (simp add: invoke_def)
qed

theorem cache_hit_returns_cached_function_witness:
  "handleCache demoEnv hitWorld (Source ''Bye'') (render_options demoEnv demoNamed)
     = (Inr demoCached, hitWorld)
   \<and> handleCache_file demoEnv hitWorld
       (getConfig demoEnv [''cache'' \<mapsto> Bool True, ''filename'' \<mapsto> Str ''/views/a.eta''])
     = (Inr demoCached, hitWorld)
   \<and> fst (render demoEnv emptyWorld (Source ''Hi'') (Obj []) demoNamed None) = Returned ''Hi''
   \<and> fst (render demoEnv (snd (render demoEnv emptyWorld (Source ''Hi'') (Obj []) demoNamed None))
            (Source ''Bye'') (Obj []) demoNamed None) = Returned ''Hi''
   \<and> fst (renderFile demoEnv emptyWorld ''/views/a.eta'' (Obj []) demoCaching None)
       = PromiseResolved ''Hi''
   \<and> fst (renderFile (demoEnv\<lparr>readFile := (\<lambda>path. Inr ''Bye'')\<rparr>)
            (snd (renderFile demoEnv emptyWorld ''/views/a.eta'' (Obj []) demoCaching None))
            ''/views/a.eta'' (Obj []) demoCaching (Some 1))
       = CallbackCalled 1 None (Some ''Hi'')"
proof -
  note T = cache_hit_returns_cached_function
  have h1: "truthy (opt (render_options demoEnv demoNamed) ''cache'')
      \<and> truthy (opt (render_options demoEnv demoNamed) ''name'')
      \<and> templates hitWorld (propertyKey (opt (render_options demoEnv demoNamed) ''name''))
          = Some demoCached"
    by (simp add: demo_defs model_defs)
  have k1: "handleCache demoEnv hitWorld (Source ''Bye'') (render_options demoEnv demoNamed)
     = (Inr demoCached, hitWorld)"
    using T [THEN conjunct1, THEN mp, OF h1] .
  let ?fo = "getConfig demoEnv [''cache'' \<mapsto> Bool True, ''filename'' \<mapsto> Str ''/views/a.eta'']"
  have h2: "truthy (opt ?fo ''cache'')
      \<and> templates hitWorld (propertyKey (opt ?fo ''filename'')) = Some demoCached"
    by (simp add: demo_defs model_defs)
  have k2: "handleCache_file demoEnv hitWorld ?fo = (Inr demoCached, hitWorld)"
    using T [THEN conjunct2, THEN conjunct1, THEN mp, OF h2] .
  let ?o = "render_options demoEnv demoNamed"
  let ?st1 = "snd (render demoEnv emptyWorld (Source ''Hi'') (Obj []) demoNamed None)"
  have h3: "render_options demoEnv demoNamed = ?o \<and> render_options demoEnv demoNamed = ?o
      \<and> truthy (opt ?o ''cache'') \<and> truthy (opt ?o ''name'')
      \<and> truthy (opt ?o ''cache'') \<and> opt ?o ''name'' = opt ?o ''name''
      \<and> templates emptyWorld (propertyKey (opt ?o ''name'')) = None
      \<and> compile demoEnv ''Hi'' ?o = Inr (\<lambda>data options. Returns ''Hi'')
      \<and> ?st1 = snd (render demoEnv emptyWorld (Source ''Hi'') (Obj []) demoNamed None)"
    by (simp add: demo_defs model_defs)
  note k3 = T [THEN conjunct2, THEN conjunct2, THEN conjunct1, THEN mp, OF h3]
  have k3a: "fst (render demoEnv emptyWorld (Source ''Hi'') (Obj []) demoNamed None)
      = Returned ''Hi''"
    using k3 [THEN conjunct1] by (simp add: deliver_def demo_defs model_defs)
  have k3b: "fst (render demoEnv ?st1 (Source ''Bye'') (Obj []) demoNamed None) = Returned ''Hi''"
    using k3 [THEN conjunct2, of "Source ''Bye''" "Obj []" None]
    by (simp add: deliver_def demo_defs model_defs)
  let ?env2 = "demoEnv\<lparr>readFile := (\<lambda>path. Inr ''Bye'')\<rparr>"
  let ?fo1 = "(getConfig demoEnv (props (Obj [(''cache'', Bool True)])))(''filename'' \<mapsto> Str ''/views/a.eta'')"
  let ?fst1 = "snd (renderFile demoEnv emptyWorld ''/views/a.eta'' (Obj []) demoCaching None)"
  have h4: "renderFile_options demoEnv ''/views/a.eta'' (dataOrEmpty (Obj [])) demoCaching = Inr ?fo1
      \<and> renderFile_options ?env2 ''/views/a.eta'' (dataOrEmpty (Obj [])) demoCaching = Inr ?fo1
      \<and> truthy (opt ?fo1 ''cache'') \<and> truthy (opt ?fo1 ''cache'')
      \<and> opt ?fo1 ''filename'' = opt ?fo1 ''filename''
      \<and> templates emptyWorld (propertyKey (opt ?fo1 ''filename'')) = None
      \<and> readFile demoEnv (propertyKey (opt ?fo1 ''filename'')) = Inr ''Hi''
      \<and> compile demoEnv ''Hi'' (getConfig demoEnv ?fo1) = Inr (\<lambda>data options. Returns ''Hi'')
      \<and> ?fst1 = snd (renderFile demoEnv emptyWorld ''/views/a.eta'' (Obj []) demoCaching None)"
    by (simp add: demo_defs model_defs)
  note k4 = T [THEN conjunct2, THEN conjunct2, THEN conjunct2, THEN mp, OF h4]
  have k4a: "fst (renderFile demoEnv emptyWorld ''/views/a.eta'' (Obj []) demoCaching None)
       = PromiseResolved ''Hi''"
    using k4 [THEN conjunct1] by (simp add: deliver_def demo_defs model_defs)
  have k4b: "fst (renderFile ?env2 ?fst1 ''/views/a.eta'' (Obj []) demoCaching (Some 1))
       = CallbackCalled 1 None (Some ''Hi'')"
    using k4 [THEN conjunct2, of "Some 1"] by (simp add: deliver_def demo_defs model_defs)
  from k1 k2 k3a k3b k4a k4b show ?thesis by blast
qed

text \<open>
  C2, as the claim states it, fails: an error of path resolution is thrown by renderFile
  itself, with a callback and without one; with asynchronous mode off and no callback a
  failed file read rejects a promise instead of being thrown; and with a callback, a
  failure of the template function that arrives as a rejected promise never reaches the
  callback.
\<close>

theorem renderFile_error_channels_counterexample:
  "getPath demoEnv ''missing.eta'' (getConfig demoEnv Map.empty)
     = Inl (EtaErr ''Could not find the template'')
   \<and> fst (renderFile demoEnv emptyWorld ''missing.eta'' (Obj []) (Val Undefined) (Some 3))
     = Thrown (EtaErr ''Could not find the template'')
   \<and> fst (renderFile demoEnv emptyWorld ''missing.eta'' (Obj []) (Val Undefined) None)
     = Thrown (EtaErr ''Could not find the template'')
   \<and> opt (getConfig demoEnv [''async'' \<mapsto> Bool False]) ''async'' = Bool False
   \<and> fst (renderFile demoEnv emptyWorld ''/views/gone.eta'' (Obj [])
            (Val (Obj [(''async'', Bool False)])) None)
     = PromiseRejected (Failure ''ENOENT'')
   \<and> fst (renderFile demoEnv emptyWorld ''reject.eta'' (Obj []) demoAsync (Some 3))
     = UnhandledRejection (Failure ''it.missing is not a function'')"
  by (simp add: run_defs demoAsync_def demo_defs model_defs)

text \<open>
  C2, amended: every error thrown inside tryHandleCache, by the cache lookup (reading
  the file, compiling it) or by the call of the template function, is passed by
  renderFile to the callback as its first argument, with no string, when a callback was
  supplied in the fourth or in the third position, and it is not thrown. When no
  callback was supplied, such an error, and likewise a rejection of the promise the
  template function returned, rejects the promise renderFile returns. None of this
  depends on the asynchronous option.
\<close>

theorem renderFile_error_delivery:
  assumes "renderFile_options env filename (dataOrEmpty data) config = Inr options"
  shows "(handleCache_file env st options = (Inl e, st')
          \<or> (\<exists>templateFn. handleCache_file env st options = (Inr templateFn, st')
                \<and> templateFn (dataOrEmpty data) options = Throws e)
          \<longrightarrow> renderFile env st filename data config (Some c)
                = (CallbackCalled c (Some e) None, st')
              \<and> renderFile env st filename data config None
                = (case config of
                     Fn c' \<Rightarrow> CallbackCalled c' (Some e) None
                   | Val v \<Rightarrow> PromiseRejected e, st'))
       \<and> ((\<exists>v. config = Val v)
          \<and> (\<exists>templateFn. handleCache_file env st options = (Inr templateFn, st')
                \<and> templateFn (dataOrEmpty data) options = Rejects e)
          \<longrightarrow> renderFile env st filename data config None = (PromiseRejected e, st'))"
  by (auto simp: renderFile_deliver [OF assms] deliver_def invoke_def callbackOf_def
      split: arg.splits)

theorem renderFile_error_delivery_witness:
  "fst (handleCache_file demoEnv emptyWorld
          ((getConfig demoEnv Map.empty)(''filename'' \<mapsto> Str ''/views/bad.eta'')))
     = Inl (EtaErr (''Loading file: /views/bad.eta failed:'' @ [CHR 0x0A, CHR 0x0A]
                    @ ''Bad template syntax''))
   \<and> fst (renderFile demoEnv emptyWorld ''bad.eta'' Undefined (Val Undefined) (Some 5))
     = CallbackCalled 5
         (Some (EtaErr (''Loading file: /views/bad.eta failed:'' @ [CHR 0x0A, CHR 0x0A]
                        @ ''Bad template syntax''))) None
   \<and> fst (renderFile demoEnv emptyWorld ''bad.eta'' Undefined (Fn 6) None)
     = CallbackCalled 6
         (Some (EtaErr (''Loading file: /views/bad.eta failed:'' @ [CHR 0x0A, CHR 0x0A]
                        @ ''Bad template syntax''))) None
   \<and> fst (renderFile demoEnv emptyWorld ''bad.eta'' Undefined (Val Undefined) None)
     = PromiseRejected
         (EtaErr (''Loading file: /views/bad.eta failed:'' @ [CHR 0x0A, CHR 0x0A]
                  @ ''Bad template syntax''))
   \<and> fst (renderFile demoEnv emptyWorld ''reject.eta'' (Obj []) demoAsync None)
     = PromiseRejected (Failure ''it.missing is not a function'')"
proof -
  let ?o = "(getConfig demoEnv Map.empty)(''filename'' \<mapsto> Str ''/views/bad.eta'')"
  let ?e = "EtaErr (''Loading file: /views/bad.eta failed:'' @ [CHR 0x0A, CHR 0x0A]
                    @ ''Bad template syntax'')"
  let ?st = "snd (handleCache_file demoEnv emptyWorld ?o)"
  have o4: "renderFile_options demoEnv ''bad.eta'' (dataOrEmpty Undefined) (Val Undefined) = Inr ?o"
    by (simp add: demo_defs model_defs)
  have o3: "renderFile_options demoEnv ''bad.eta'' (dataOrEmpty Undefined) (Fn 6) = Inr ?o"
    by (simp add: demo_defs model_defs)
  have f: "fst (handleCache_file demoEnv emptyWorld ?o) = Inl ?e"
    by (simp add: handleCache_file_def loadFile_def Let_def demo_defs model_defs)
  then have h: "handleCache_file demoEnv emptyWorld ?o = (Inl ?e, ?st)
         \<or> (\<exists>templateFn. handleCache_file demoEnv emptyWorld ?o = (Inr templateFn, ?st)
               \<and> templateFn (dataOrEmpty Undefined) ?o = Throws ?e)"
    by (simp add: prod_eq_iff)
  note k4 = renderFile_error_delivery [OF o4, THEN conjunct1, THEN mp, OF h]
  note k3 = renderFile_error_delivery [OF o3, THEN conjunct1, THEN mp, OF h]
  have a: "fst (renderFile demoEnv emptyWorld ''bad.eta'' Undefined (Val Undefined) (Some 5))
     = CallbackCalled 5 (Some ?e) None"
    using k4 [THEN conjunct1, of 5] by simp
  have b: "fst (renderFile demoEnv emptyWorld ''bad.eta'' Undefined (Fn 6) None)
     = CallbackCalled 6 (Some ?e) None"
    using k3 [THEN conjunct2] by simp
  have c: "fst (renderFile demoEnv emptyWorld ''bad.eta'' Undefined (Val Undefined) None)
     = PromiseRejected ?e"
    using k4 [THEN conjunct2] by simp
  let ?r = "(getConfig demoEnv [''async'' \<mapsto> Bool True])(''filename'' \<mapsto> Str ''/views/reject.eta'')"
  let ?rst = "snd (handleCache_file demoEnv emptyWorld ?r)"
  let ?fn = "\<lambda>(data::jsval) (options::config). Rejects (Failure ''it.missing is not a function'')"
  have ro: "renderFile_options demoEnv ''reject.eta'' (dataOrEmpty (Obj [])) demoAsync = Inr ?r"
    by (simp add: demoAsync_def demo_defs model_defs)
  have rf: "fst (handleCache_file demoEnv emptyWorld ?r) = Inr ?fn"
    by (simp add: handleCache_file_def loadFile_def Let_def demo_defs model_defs)
  have rh: "(\<exists>v. demoAsync = Val v)
          \<and> (\<exists>templateFn. handleCache_file demoEnv emptyWorld ?r = (Inr templateFn, ?rst)
                \<and> templateFn (dataOrEmpty (Obj [])) ?r
                    = Rejects (Failure ''it.missing is not a function''))"
  proof (intro conjI exI [of _ ?fn])
    show "\<exists>v. demoAsync = Val v" by (simp add: demoAsync_def)
    show "handleCache_file demoEnv emptyWorld ?r = (Inr ?fn, ?rst)"
      using rf by (simp add: prod_eq_iff)
    show "?fn (dataOrEmpty (Obj [])) ?r = Rejects (Failure ''it.missing is not a function'')"
      by simp
  qed
  have d: "fst (renderFile demoEnv emptyWorld ''reject.eta'' (Obj []) demoAsync None)
     = PromiseRejected (Failure ''it.missing is not a function'')"
    using renderFile_error_delivery [OF ro, THEN conjunct2, THEN mp, OF rh] by simp
  from f a b c d show ?thesis by blast
qed



text \<open>
  C4, as the claim states it, fails: with asynchronous mode off and no callback,
  renderFile hands back a promise, not the string; and render, with asynchronous mode
  off, hands back a promise when the template function it calls returns one.
\<close>

theorem render_entry_points_async_off_counterexample:
  "opt (getConfig demoEnv [''async'' \<mapsto> Bool False]) ''async'' = Bool False
   \<and> fst (renderFile demoEnv emptyWorld ''/views/a.eta'' (Obj [])
            (Val (Obj [(''async'', Bool False)])) None)
     = PromiseResolved ''Hi''
   \<and> fst (renderFile demoEnv emptyWorld ''/views/a.eta'' (Obj [])
            (Val (Obj [(''async'', Bool False)])) None)
     \<noteq> Returned ''Hi''
   \<and> opt (render_options demoEnv (Val Undefined)) ''async'' = Bool False
   \<and> fst (render demoEnv emptyWorld (Compiled demoLater) (Obj []) (Val Undefined) None)
     = PromiseResolved ''later''"
  by (simp add: run_defs demoLater_def demo_defs model_defs)

text \<open>
  C4, amended: when asynchronous mode is off, render calls the template function
  synchronously and hands its result directly to the caller, whether or not a callback
  was passed: the string, when the function returns its string directly, and an error
  thrown by the lookup or by the call is thrown to the caller. renderFile has no
  synchronous mode: called without a callback, once its configuration is built and its
  path resolved, it delivers the string or the error through a promise, whatever the
  asynchronous option says.
\<close>

theorem render_sync_returns_directly:
  "(\<not> truthy (opt (render_options env config) ''async'') \<longrightarrow>
      render env st template data config cb =
        (case invoke (fst (handleCache env st template (render_options env config))) data
                (render_options env config) of
           Throws e \<Rightarrow> Thrown e
         | Returns str \<Rightarrow> Returned str
         | Resolves str \<Rightarrow> PromiseResolved str
         | Rejects e \<Rightarrow> PromiseRejected e,
         snd (handleCache env st template (render_options env config))))
   \<and> (renderFile_options env filename (dataOrEmpty fdata) (Val v) = Inr foptions \<longrightarrow>
      renderFile env st filename fdata (Val v) None =
        (case invoke (fst (handleCache_file env st foptions)) (dataOrEmpty fdata) foptions of
           Throws e \<Rightarrow> PromiseRejected e
         | Returns str \<Rightarrow> PromiseResolved str
         | Resolves str \<Rightarrow> PromiseResolved str
         | Rejects e \<Rightarrow> PromiseRejected e,
         snd (handleCache_file env st foptions)))"
  by (auto simp: render_deliver renderFile_deliver deliver_def callbackOf_def)

theorem render_sync_returns_directly_witness:
  "\<not> truthy (opt (render_options demoEnv (Val Undefined)) ''async'')
   \<and> fst (render demoEnv emptyWorld (Source ''Hi'') (Obj []) (Val Undefined) (Some 2))
       = Returned ''Hi''
   \<and> fst (render demoEnv emptyWorld (Source ''<% bad'') (Obj []) (Val Undefined) None)
       = Thrown (Failure ''Bad template syntax'')
   \<and> renderFile_options demoEnv ''a.eta'' (dataOrEmpty (Obj [])) (Val Undefined)
       = Inr ((getConfig demoEnv Map.empty)(''filename'' \<mapsto> Str ''/views/a.eta''))
   \<and> fst (renderFile demoEnv emptyWorld ''a.eta'' (Obj []) (Val Undefined) None)
       = PromiseResolved ''Hi''"
proof -
  note T = render_sync_returns_directly
  let ?fo = "(getConfig demoEnv Map.empty)(''filename'' \<mapsto> Str ''/views/a.eta'')"
  have h1: "\<not> truthy (opt (render_options demoEnv (Val Undefined)) ''async'')"
    by (simp add: demo_defs model_defs)
  have h2: "renderFile_options demoEnv ''a.eta'' (dataOrEmpty (Obj [])) (Val Undefined)
       = Inr ?fo"
    by (simp add: demo_defs model_defs)
  have k1: "fst (render demoEnv emptyWorld (Source ''Hi'') (Obj []) (Val Undefined) (Some 2))
       = Returned ''Hi''"
    using T [THEN conjunct1, THEN mp, OF h1, of emptyWorld "Source ''Hi''" "Obj []" "Some 2"]
    by (simp add: invoke_def handleCache_def Let_def demo_defs model_defs)
  have k2: "fst (render demoEnv emptyWorld (Source ''<% bad'') (Obj []) (Val Undefined) None)
       = Thrown (Failure ''Bad template syntax'')"
    using T [THEN conjunct1, THEN mp, OF h1, of emptyWorld "Source ''<% bad''" "Obj []" None]
    by (simp add: invoke_def handleCache_def Let_def demo_defs model_defs)
  have k3: "fst (renderFile demoEnv emptyWorld ''a.eta'' (Obj []) (Val Undefined) None)
       = PromiseResolved ''Hi''"
    using T [THEN conjunct2, THEN mp, OF h2, of emptyWorld]
    by (simp add: invoke_def handleCache_file_def loadFile_def Let_def demo_defs model_defs)
  from h1 h2 k1 k2 k3 show ?thesis by blast
qed

text \<open>
  C5: the asynchronous-suffixed entry points should behave as their counterparts with
  \<open>async: true\<close> forced into the configuration. renderFileAsync does so when the third
  argument is an object or the callback; when it is absent, nothing is forced. With
  defaults that have asynchronous mode off, a template that needs it is rejected by the
  compiler under renderFileAsync, and accepted under renderFile with \<open>async: true\<close>.
\<close>

theorem renderFileAsync_config_absent_async_not_forced:
  "fst (renderFileAsync demoEnv emptyWorld ''/views/async.eta'' (Obj []) (Val Undefined) None)
     = PromiseRejected
         (EtaErr (''Loading file: /views/async.eta failed:'' @ [CHR 0x0A, CHR 0x0A]
                  @ ''await is only valid in async functions''))
   \<and> fst (renderFile demoEnv emptyWorld ''/views/async.eta'' (Obj [])
            (Val (Obj [(''async'', Bool True)])) None)
     = PromiseResolved ''<%= await 1 %>''
   \<and> fst (renderFile demoEnv emptyWorld ''/views/async.eta'' (Obj [(''async'', Bool True)])
            (Val Undefined) None)
     = PromiseResolved ''<%= await 1 %>''
   \<and> fst (renderFileAsync demoEnv emptyWorld ''/views/async.eta'' (Obj []) (Val (Obj [])) None)
     = PromiseResolved ''<%= await 1 %>''
   \<and> fst (renderFileAsync demoEnv emptyWorld ''/views/async.eta'' (Obj []) (Fn 4) None)
     = CallbackCalled 4 None (Some ''<%= await 1 %>'')"
  by (simp add: renderFileAsync_def renderFile_def tryHandleCache_def handleCache_file_def
      loadFile_def Let_def spreadWith_def demo_defs model_defs)

text \<open>
  With the third argument absent, renderFileAsync is renderFile. In the other shapes the
  asynchronous option is forced: on the configuration object renderFileAsync passes on,
  on the data object when the callback is in the third position, and by renderAsync on
  the configuration in every shape.
\<close>

lemma renderFileAsync_config_absent:
  "renderFileAsync env st filename data (Val Undefined) cb
     = renderFile env st filename data (Val Undefined) cb"
  by (simp add: renderFileAsync_def)

lemma map_of_without_key:
  "map_of (filter (\<lambda>p. fst p \<noteq> k) ps) k = None"
  by (induction ps) auto

lemma spreadWith_forces:
  "opt (getConfig env (props (spreadWith v k x))) k = x"
  by (simp add: spreadWith_def getConfig_def opt_def map_add_def map_of_without_key)

lemma renderFileAsync_config_object:
  "renderFileAsync env st filename data (Val (Obj c)) cb
     = renderFile env st filename data (Val (spreadWith (Obj c) ''async'' (Bool True))) cb"
  by (simp add: renderFileAsync_def)

lemma renderFileAsync_config_callback:
  "renderFileAsync env st filename data (Fn c) cb
     = renderFile env st filename (spreadWith data ''async'' (Bool True)) (Fn c) cb"
  by (simp add: renderFileAsync_def)

lemma renderAsync_forces_async:
  "renderAsync env st template data config cb
     = render env st template data
         (Val (spreadWith (case config of Val v \<Rightarrow> v | Fn c \<Rightarrow> Obj []) ''async'' (Bool True))) cb
   \<and> opt (render_options env
            (Val (spreadWith (case config of Val v \<Rightarrow> v | Fn c \<Rightarrow> Obj []) ''async'' (Bool True))))
        ''async'' = Bool True"
  using spreadWith_forces [of env "case config of Val v \<Rightarrow> v | Fn c \<Rightarrow> Obj []" "''async''" "Bool True"]
  by (simp add: renderAsync_def render_options_def spreadWith_def)


text \<open>
  C7, as the claim states it, fails: with caching disabled, renders of a template
  function, and renders of a file that cannot be read, cause no compilation at all.
\<close>

theorem no_cache_render_without_compilation_counterexample:
  "\<not> truthy (opt (render_options demoEnv demoNamedNoCache) ''cache'')
   \<and> compileCount (renders 3 demoRenderPassed emptyWorld) = 0
   \<and> renderFile_options demoEnv ''/views/gone.eta'' (dataOrEmpty (Obj [])) (Val Undefined)
       = Inr ((getConfig demoEnv Map.empty)(''filename'' \<mapsto> Str ''/views/gone.eta''))
   \<and> \<not> truthy (opt ((getConfig demoEnv Map.empty)(''filename'' \<mapsto> Str ''/views/gone.eta''))
                  ''cache'')
   \<and> compileCount (renders 3 demoRenderGone emptyWorld) = 0"
  by (simp add: eval_nat_numeral compileCount_def demoRenderPassed_def demoRenderGone_def
      demoNamedNoCache_def demoPassed_def run_defs demo_defs model_defs)

text \<open>
  C7, amended: when caching is disabled in the effective configuration, whether or not
  a name or filename is there, no render registers anything in the template cache.
  Every render of a template string, and every render of a file that resolves and can be
  read, calls the compiler afresh on that source, whatever the state: its outcome is the
  one obtained from what the compiler yields for the source, and the call is recorded.
  After \<open>n\<close> such renders the compiler has been called \<open>n\<close> more times. Renders of
  an already-compiled template function, and renders of a file that cannot be read, do
  not call the compiler.
\<close>

theorem no_cache_compiles_every_render:
  "(\<not> truthy (opt (render_options env config) ''cache'') \<longrightarrow>
      templates (renders n (\<lambda>w. render env w template data config cb) st) = templates st
      \<and> (\<forall>w. render env w (Source src) data config cb =
                (deliver (truthy (opt (render_options env config) ''async'')) cb
                   (invoke (compile env src (render_options env config)) data
                      (render_options env config)),
                 logEvent (Compile src) w))
      \<and> compileCount (renders n (\<lambda>w. render env w (Source src) data config cb) st)
          = compileCount st + n
      \<and> compileCount (renders n (\<lambda>w. render env w (Compiled f) data config cb) st)
          = compileCount st)
   \<and> (renderFile_options env filename (dataOrEmpty fdata) fconfig = Inr foptions
      \<and> \<not> truthy (opt foptions ''cache'') \<longrightarrow>
      templates (renders n (\<lambda>w. renderFile env w filename fdata fconfig fcb) st) = templates st
      \<and> (readFile env (propertyKey (opt foptions ''filename'')) = Inr fsrc \<longrightarrow>
         (\<forall>w. renderFile env w filename fdata fconfig fcb =
                 (deliver True (callbackOf fconfig fcb)
                    (invoke
                       (case compile env fsrc (getConfig env foptions) of
                          Inl e \<Rightarrow>
                            Inl (EtaErr (''Loading file: ''
                                         @ propertyKey (opt foptions ''filename'')
                                         @ '' failed:'' @ [CHR 0x0A, CHR 0x0A] @ message e))
                        | Inr compiledTemplate \<Rightarrow> Inr compiledTemplate)
                       (dataOrEmpty fdata) foptions),
                  logEvent (Compile fsrc)
                    (logEvent (ReadFile (propertyKey (opt foptions ''filename''))) w)))
         \<and> compileCount (renders n (\<lambda>w. renderFile env w filename fdata fconfig fcb) st)
             = compileCount st + n)
      \<and> (readFile env (propertyKey (opt foptions ''filename'')) = Inl ferr \<longrightarrow>
         compileCount (renders n (\<lambda>w. renderFile env w filename fdata fconfig fcb) st)
           = compileCount st))"
proof (intro conjI impI allI)
  assume c: "\<not> truthy (opt (render_options env config) ''cache'')"
  show "templates (renders n (\<lambda>w. render env w template data config cb) st) = templates st"
    by (simp add: renders_templates render_nocache_step [OF c])
  show "compileCount (renders n (\<lambda>w. render env w (Source src) data config cb) st)
          = compileCount st + n"
    by (simp add: renders_compileCount render_nocache_step [OF c])
  show "compileCount (renders n (\<lambda>w. render env w (Compiled f) data config cb) st)
          = compileCount st"
    by (simp add: renders_compileCount_same render_compiled_step)
  fix w
  show "render env w (Source src) data config cb =
          (deliver (truthy (opt (render_options env config) ''async'')) cb
             (invoke (compile env src (render_options env config)) data
                (render_options env config)),
           logEvent (Compile src) w)"
    using c by (rule render_source_nocache)
next
  assume h: "renderFile_options env filename (dataOrEmpty fdata) fconfig = Inr foptions
      \<and> \<not> truthy (opt foptions ''cache'')"
  then have o: "renderFile_options env filename (dataOrEmpty fdata) fconfig = Inr foptions"
    and c: "\<not> truthy (opt foptions ''cache'')"
    by simp_all
  show "templates (renders n (\<lambda>w. renderFile env w filename fdata fconfig fcb) st) = templates st"
    by (simp add: renders_templates renderFile_nocache_step [OF o c])
  {
    assume u: "readFile env (propertyKey (opt foptions ''filename'')) = Inl ferr"
    show "compileCount (renders n (\<lambda>w. renderFile env w filename fdata fconfig fcb) st)
             = compileCount st"
      by (simp add: renders_compileCount_same renderFile_unreadable_step [OF o c u])
  }
  assume r: "readFile env (propertyKey (opt foptions ''filename'')) = Inr fsrc"
  show "compileCount (renders n (\<lambda>w. renderFile env w filename fdata fconfig fcb) st)
             = compileCount st + n"
    by (simp add: renders_compileCount renderFile_nocache_step [OF o c] r)
  fix w
  show "renderFile env w filename fdata fconfig fcb =
                 (deliver True (callbackOf fconfig fcb)
                    (invoke
                       (case compile env fsrc (getConfig env foptions) of
                          Inl e \<Rightarrow>
                            Inl (EtaErr (''Loading file: ''
                                         @ propertyKey (opt foptions ''filename'')
                                         @ '' failed:'' @ [CHR 0x0A, CHR 0x0A] @ message e))
                        | Inr compiledTemplate \<Rightarrow> Inr compiledTemplate)
                       (dataOrEmpty fdata) foptions),
                  logEvent (Compile fsrc)
                    (logEvent (ReadFile (propertyKey (opt foptions ''filename''))) w))"
    using o c r by (rule renderFile_read_nocache)
qed

theorem no_cache_compiles_every_render_witness:
  "\<not> truthy (opt (render_options demoEnv demoNamedNoCache) ''cache'')
   \<and> templates (renders 3 (\<lambda>w. render demoEnv w (Source ''Hi'') (Obj []) demoNamedNoCache None)
        emptyWorld) = templates emptyWorld
   \<and> render demoEnv emptyWorld (Source ''Hi'') (Obj []) demoNamedNoCache None
       = (Returned ''Hi'', logEvent (Compile ''Hi'') emptyWorld)
   \<and> compileCount (renders 3 (\<lambda>w. render demoEnv w (Source ''Hi'') (Obj []) demoNamedNoCache None)
        emptyWorld) = 3
   \<and> renderFile_options demoEnv ''a.eta'' (dataOrEmpty (Obj [])) (Val Undefined)
       = Inr ((getConfig demoEnv Map.empty)(''filename'' \<mapsto> Str ''/views/a.eta''))
   \<and> templates (renders 3 (\<lambda>w. renderFile demoEnv w ''a.eta'' (Obj []) (Val Undefined) None)
        emptyWorld) = templates emptyWorld
   \<and> renderFile demoEnv emptyWorld ''a.eta'' (Obj []) (Val Undefined) None
       = (PromiseResolved ''Hi'',
          logEvent (Compile ''Hi'') (logEvent (ReadFile ''/views/a.eta'') emptyWorld))
   \<and> compileCount (renders 3 (\<lambda>w. renderFile demoEnv w ''a.eta'' (Obj []) (Val Undefined) None)
        emptyWorld) = 3
   \<and> compileCount (renders 3
        (\<lambda>w. render demoEnv w (Compiled demoPassed) (Obj []) demoNamedNoCache None)
        emptyWorld) = 0
   \<and> readFile demoEnv ''/views/gone.eta'' = Inl (Failure ''ENOENT'')
   \<and> compileCount (renders 3
        (\<lambda>w. renderFile demoEnv w ''/views/gone.eta'' (Obj []) (Val Undefined) None)
        emptyWorld) = 0"
proof -
  note T = no_cache_compiles_every_render
  let ?fo = "(getConfig demoEnv Map.empty)(''filename'' \<mapsto> Str ''/views/a.eta'')"
  have h1: "\<not> truthy (opt (render_options demoEnv demoNamedNoCache) ''cache'')"
    by (simp add: demoNamedNoCache_def demo_defs model_defs)
  have o: "renderFile_options demoEnv ''a.eta'' (dataOrEmpty (Obj [])) (Val Undefined)
       = Inr ?fo"
    by (simp add: demo_defs model_defs)
  have h2: "renderFile_options demoEnv ''a.eta'' (dataOrEmpty (Obj [])) (Val Undefined)
       = Inr ?fo
      \<and> \<not> truthy (opt ?fo ''cache'')"
    by (simp add: demo_defs model_defs)
  have h3: "readFile demoEnv (propertyKey (opt ?fo ''filename'')) = Inr ''Hi''"
    by (simp add: demo_defs model_defs)
  have z: "compileCount emptyWorld = 0"
    by (simp add: compileCount_def emptyWorld_def)
  note k1 = T [THEN conjunct1, THEN mp, OF h1, of 3 "Source ''Hi''" "Obj []" None emptyWorld "''Hi''"]
  note k2 = T [THEN conjunct2, THEN mp, OF h2, of 3 None emptyWorld]
  note k3 = k2 [THEN conjunct2, THEN conjunct1, THEN mp, OF h3]
  have a: "render demoEnv emptyWorld (Source ''Hi'') (Obj []) demoNamedNoCache None
       = (Returned ''Hi'', logEvent (Compile ''Hi'') emptyWorld)"
    using k1 [THEN conjunct2, THEN conjunct1, THEN spec, of emptyWorld]
    by (simp add: deliver_def invoke_def demoNamedNoCache_def demo_defs model_defs)
  have b: "renderFile demoEnv emptyWorld ''a.eta'' (Obj []) (Val Undefined) None
       = (PromiseResolved ''Hi'',
          logEvent (Compile ''Hi'') (logEvent (ReadFile ''/views/a.eta'') emptyWorld))"
    using k3 [THEN conjunct1, THEN spec, of emptyWorld]
    by (simp add: deliver_def invoke_def demo_defs model_defs)
  have t1: "templates (renders 3 (\<lambda>w. render demoEnv w (Source ''Hi'') (Obj []) demoNamedNoCache None)
        emptyWorld) = templates emptyWorld"
    using k1 [THEN conjunct1] .
  have n1: "compileCount (renders 3 (\<lambda>w. render demoEnv w (Source ''Hi'') (Obj []) demoNamedNoCache None)
        emptyWorld) = 3"
    using k1 [THEN conjunct2, THEN conjunct2, THEN conjunct1] by (simp only: z add_0)
  have t2: "templates (renders 3 (\<lambda>w. renderFile demoEnv w ''a.eta'' (Obj []) (Val Undefined) None)
        emptyWorld) = templates emptyWorld"
    using k2 [THEN conjunct1] .
  have n2: "compileCount (renders 3 (\<lambda>w. renderFile demoEnv w ''a.eta'' (Obj []) (Val Undefined) None)
        emptyWorld) = 3"
    using k3 [THEN conjunct2] by (simp only: z add_0)
  have n3: "compileCount (renders 3
        (\<lambda>w. render demoEnv w (Compiled demoPassed) (Obj []) demoNamedNoCache None)
        emptyWorld) = 0"
    using T [THEN conjunct1, THEN mp, OF h1, THEN conjunct2, THEN conjunct2, THEN conjunct2,
        of 3 demoPassed "Obj []" None emptyWorld]
    by (simp only: z)
  let ?go = "(getConfig demoEnv Map.empty)(''filename'' \<mapsto> Str ''/views/gone.eta'')"
  have h4: "renderFile_options demoEnv ''/views/gone.eta'' (dataOrEmpty (Obj [])) (Val Undefined)
       = Inr ?go
      \<and> \<not> truthy (opt ?go ''cache'')"
    by (simp add: demo_defs model_defs)
  have h5: "readFile demoEnv (propertyKey (opt ?go ''filename'')) = Inl (Failure ''ENOENT'')"
    by (simp add: demo_defs model_defs)
  have u: "readFile demoEnv ''/views/gone.eta'' = Inl (Failure ''ENOENT'')"
    by (simp add: demo_defs)
  have n4: "compileCount (renders 3
        (\<lambda>w. renderFile demoEnv w ''/views/gone.eta'' (Obj []) (Val Undefined) None)
        emptyWorld) = 0"
    using T [THEN conjunct2, THEN mp, OF h4, THEN conjunct2, THEN conjunct2, THEN mp, OF h5,
        of 3 None emptyWorld]
    by (simp only: z)
  from h1 t1 a n1 o t2 b n2 n3 u n4 show ?thesis by blast
qed

text \<open>
  C8: when the compiler fails inside loadFile, the error raised is the engine's one error
  kind, and its message is "Loading file: ", the file path, " failed:", two newlines and
  the message of the compiler's error.
\<close>

theorem loadFile_compile_failure_wrapped:
  assumes "readFile env filePath = Inr template"
    and "compile env template (getConfig env options) = Inl e"
  shows "fst (loadFile env st filePath options noCache) =
           Inl (EtaErr (''Loading file: '' @ filePath @ '' failed:''
                        @ [CHR 0x0A, CHR 0x0A] @ message e))"
  using assms by (simp add: loadFile_def Let_def)

theorem loadFile_compile_failure_wrapped_witness:
  "readFile demoEnv ''/views/bad.eta'' = Inr ''<% bad''
   \<and> compile demoEnv ''<% bad'' (getConfig demoEnv [''filename'' \<mapsto> Str ''/views/bad.eta''])
       = Inl (Failure ''Bad template syntax'')
   \<and> fst (loadFile demoEnv emptyWorld ''/views/bad.eta''
             [''filename'' \<mapsto> Str ''/views/bad.eta''] False)
       = Inl (EtaErr (''Loading file: /views/bad.eta failed:'' @ [CHR 0x0A, CHR 0x0A]
                      @ ''Bad template syntax''))"
proof -
  have r: "readFile demoEnv ''/views/bad.eta'' = Inr ''<% bad''"
    by (simp add: demoEnv_def demoReadFile_def)
  have c: "compile demoEnv ''<% bad''
             (getConfig demoEnv [''filename'' \<mapsto> Str ''/views/bad.eta''])
           = Inl (Failure ''Bad template syntax'')"
    by (simp add: demoEnv_def demoCompile_def)
  from loadFile_compile_failure_wrapped [OF r c, of emptyWorld False] r c
  show ?thesis by simp
qed

text \<open>
  C9: renderFile replaces an absent data argument, \<open>undefined\<close> or \<open>null\<close>, by the empty
  object before anything reads it. Reading \<open>settings\<close> from the replaced value yields
  \<open>undefined\<close> instead of failing, and building the configuration succeeds. The call
  itself, on absent data, throws nothing but an error of the path resolver, and otherwise
  is tryHandleCache run with the empty object as data: it is the call with the empty
  object as data.
\<close>

theorem absent_data_defaults_to_empty:
  "dataOrEmpty Undefined = Obj [] \<and> dataOrEmpty Null = Obj []
   \<and> getProp (dataOrEmpty Undefined) ''settings'' = Inr Undefined
   \<and> getProp (dataOrEmpty Null) ''settings'' = Inr Undefined
   \<and> renderFile_config env (dataOrEmpty Undefined) config
       = Inr (getConfig env (if typeof config = ''object'' then argProps config else Map.empty))
   \<and> renderFile_config env (dataOrEmpty Null) config
       = Inr (getConfig env (if typeof config = ''object'' then argProps config else Map.empty))
   \<and> renderFile env st filename Undefined config cb
       = (case getPath env filename
                 (getConfig env (if typeof config = ''object'' then argProps config
                                 else Map.empty)) of
            Inl e \<Rightarrow> (Thrown e, st)
          | Inr path \<Rightarrow>
              tryHandleCache env st (Obj [])
                ((getConfig env (if typeof config = ''object'' then argProps config
                                 else Map.empty))(''filename'' \<mapsto> Str path))
                (callbackOf config cb))
   \<and> renderFile env st filename Null config cb
       = (case getPath env filename
                 (getConfig env (if typeof config = ''object'' then argProps config
                                 else Map.empty)) of
            Inl e \<Rightarrow> (Thrown e, st)
          | Inr path \<Rightarrow>
              tryHandleCache env st (Obj [])
                ((getConfig env (if typeof config = ''object'' then argProps config
                                 else Map.empty))(''filename'' \<mapsto> Str path))
                (callbackOf config cb))
   \<and> renderFile env st filename Undefined config cb
       = renderFile env st filename (Obj []) config cb
   \<and> renderFile env st filename Null config cb
       = renderFile env st filename (Obj []) config cb"
proof -
  have d: "dataOrEmpty Undefined = Obj []" "dataOrEmpty Null = Obj []"
      "dataOrEmpty (Obj []) = Obj []"
    by (simp_all add: dataOrEmpty_def)
  have c: "renderFile_config env (Obj []) config
       = Inr (getConfig env (if typeof config = ''object'' then argProps config else Map.empty))"
  proof (cases config)
    case (Val v)
    then show ?thesis by (cases v) (simp_all add: renderFile_config_def)
  next
    case (Fn c)
    then show ?thesis by (simp add: renderFile_config_def)
  qed
  show ?thesis
    by (simp add: d c renderFile_def renderFile_options_def Let_def split: sum.splits)
qed

text \<open>
  Without the replacement, that read is the one that fails.
\<close>

lemma settings_read_fails_on_absent_data:
  "getProp Undefined ''settings'' \<noteq> Inr v \<and> getProp Null ''settings'' \<noteq> Inr v"
  by simp

text \<open>
  C10, as the claim states it, fails: when caching is on and the name is already
  registered, render calls the registered function, not the one it was passed.
\<close>

theorem render_compiled_cache_hit_counterexample:
  "fst (render demoEnv hitWorld (Compiled demoPassed) (Obj []) demoNamed None)
     = Returned ''cached''
   \<and> demoPassed (Obj []) (render_options demoEnv demoNamed) = Returns ''passed''
   \<and> fst (render demoEnv hitWorld (Compiled demoPassed) (Obj []) demoNamed None)
     \<noteq> Returned ''passed''"
  by (simp add: render_def handleCache_def Let_def demoPassed_def demo_defs model_defs)

text \<open>
  C10, amended: render accepts an already-compiled template function and never calls the
  compiler for it. When caching is on, the name is non-empty and already registered, the
  registered function is called and the passed one is ignored. Otherwise the passed
  function is called directly; it is registered under the name when caching is on and
  the name is non-empty, and not registered at all otherwise.
\<close>

theorem render_compiled_template:
  "trace (snd (render env st (Compiled f) data config cb)) = trace st
   \<and> (truthy (opt (render_options env config) ''cache'')
      \<and> truthy (opt (render_options env config) ''name'')
      \<and> templates st (propertyKey (opt (render_options env config) ''name'')) = Some g
     \<longrightarrow> render env st (Compiled f) data config cb
          = (deliver (truthy (opt (render_options env config) ''async'')) cb
               (g data (render_options env config)), st))
   \<and> (truthy (opt (render_options env config) ''cache'')
      \<and> truthy (opt (render_options env config) ''name'')
      \<and> templates st (propertyKey (opt (render_options env config) ''name'')) = None
     \<longrightarrow> render env st (Compiled f) data config cb
          = (deliver (truthy (opt (render_options env config) ''async'')) cb
               (f data (render_options env config)),
             templates_define (propertyKey (opt (render_options env config) ''name'')) f st))
   \<and> (\<not> (truthy (opt (render_options env config) ''cache'')
          \<and> truthy (opt (render_options env config) ''name''))
     \<longrightarrow> render env st (Compiled f) data config cb
          = (deliver (truthy (opt (render_options env config) ''async'')) cb
               (f data (render_options env config)), st))"
  by (auto simp: render_deliver handleCache_def Let_def invoke_def split: option.splits)

theorem render_compiled_template_witness:
  "trace (snd (render demoEnv hitWorld (Compiled demoPassed) (Obj []) demoNamed None)) = []
   \<and> fst (render demoEnv hitWorld (Compiled demoPassed) (Obj []) demoNamed None)
       = Returned ''cached''
   \<and> fst (render demoEnv emptyWorld (Compiled demoPassed) (Obj []) demoNamed None)
       = Returned ''passed''
   \<and> (case templates (snd (render demoEnv emptyWorld (Compiled demoPassed) (Obj []) demoNamed None))
            ''greet'' of
         None \<Rightarrow> False
       | Some registered \<Rightarrow> registered = demoPassed)
   \<and> render demoEnv hitWorld (Compiled demoPassed) (Obj []) demoNamedNoCache None
       = (Returned ''passed'', hitWorld)"
proof -
  note T = render_compiled_template
  let ?o = "render_options demoEnv demoNamed"
  have h1: "truthy (opt ?o ''cache'') \<and> truthy (opt ?o ''name'')
      \<and> templates hitWorld (propertyKey (opt ?o ''name'')) = Some demoCached"
    by (simp add: demo_defs model_defs)
  have h2: "truthy (opt ?o ''cache'') \<and> truthy (opt ?o ''name'')
      \<and> templates emptyWorld (propertyKey (opt ?o ''name'')) = None"
    by (simp add: demo_defs model_defs)
  let ?n = "render_options demoEnv demoNamedNoCache"
  have h3: "\<not> (truthy (opt ?n ''cache'') \<and> truthy (opt ?n ''name''))"
    by (simp add: demoNamedNoCache_def demo_defs model_defs)
  have a: "\<not> truthy (opt ?o ''async'')" "\<not> truthy (opt ?n ''async'')"
    "propertyKey (opt ?o ''name'') = ''greet''"
    by (simp_all add: demoNamedNoCache_def demo_defs model_defs)
  have k0: "trace (snd (render demoEnv hitWorld (Compiled demoPassed) (Obj []) demoNamed None)) = []"
    using T [THEN conjunct1, of demoEnv hitWorld demoPassed "Obj []" demoNamed None]
    by (simp add: hitWorld_def)
  have k1: "fst (render demoEnv hitWorld (Compiled demoPassed) (Obj []) demoNamed None)
       = Returned ''cached''"
    using T [THEN conjunct2, THEN conjunct1, THEN mp, OF h1, of demoPassed "Obj []" None] a
    by (simp add: deliver_def demoCached_def)
  have k2: "render demoEnv emptyWorld (Compiled demoPassed) (Obj []) demoNamed None
       = (Returned ''passed'', templates_define ''greet'' demoPassed emptyWorld)"
    using T [THEN conjunct2, THEN conjunct2, THEN conjunct1, THEN mp, OF h2, of demoPassed "Obj []" None] a
    by (simp add: deliver_def demoPassed_def)
  have k3: "render demoEnv hitWorld (Compiled demoPassed) (Obj []) demoNamedNoCache None
       = (Returned ''passed'', hitWorld)"
    using T [THEN conjunct2, THEN conjunct2, THEN conjunct2, THEN mp, OF h3, of hitWorld demoPassed "Obj []" None] a
    by (simp add: deliver_def demoPassed_def)
  from k0 k1 k2 k3 show ?thesis by simp
qed

end
